theory Spec2Isabelle
  imports Complex_Main
begin

section \<open>Numeric results of numpy and pandas arithmetic\<close>

text \<open>
  The analyses divide numpy integers and floats. A numpy division by zero does not
  raise: it yields \<open>nan\<close> (for \<open>0/0\<close>) or a signed infinity, and the script
  silences the accompanying warning (\<open>warnings.filterwarnings('ignore')\<close>). A float
  result is therefore a finite real, an infinity or NaN. Finite arithmetic is exact
  real arithmetic here (rounding and signed zeros are not modelled).
\<close>

datatype npfloat = Fin real | PosInf | NegInf | NaN

fun is_finite :: "npfloat \<Rightarrow> bool" where
  "is_finite (Fin _) = True"
| "is_finite _ = False"

fun np_div :: "npfloat \<Rightarrow> npfloat \<Rightarrow> npfloat" where
  "np_div (Fin a) (Fin b) =
     (if b = 0 then (if a = 0 then NaN else if 0 < a then PosInf else NegInf)
      else Fin (a / b))"
| "np_div NaN _ = NaN"
| "np_div _ NaN = NaN"
| "np_div (Fin a) _ = Fin 0"
| "np_div PosInf (Fin b) = (if b < 0 then NegInf else PosInf)"
| "np_div NegInf (Fin b) = (if b < 0 then PosInf else NegInf)"
| "np_div _ _ = NaN"

fun np_mul :: "npfloat \<Rightarrow> npfloat \<Rightarrow> npfloat" where
  "np_mul (Fin a) (Fin b) = Fin (a * b)"
| "np_mul NaN _ = NaN"
| "np_mul _ NaN = NaN"
| "np_mul PosInf (Fin b) = (if b = 0 then NaN else if 0 < b then PosInf else NegInf)"
| "np_mul NegInf (Fin b) = (if b = 0 then NaN else if 0 < b then NegInf else PosInf)"
| "np_mul (Fin a) PosInf = (if a = 0 then NaN else if 0 < a then PosInf else NegInf)"
| "np_mul (Fin a) NegInf = (if a = 0 then NaN else if 0 < a then NegInf else PosInf)"
| "np_mul PosInf PosInf = PosInf"
| "np_mul NegInf NegInf = PosInf"
| "np_mul _ _ = NegInf"

fun np_add :: "npfloat \<Rightarrow> npfloat \<Rightarrow> npfloat" where
  "np_add (Fin a) (Fin b) = Fin (a + b)"
| "np_add NaN _ = NaN"
| "np_add _ NaN = NaN"
| "np_add PosInf NegInf = NaN"
| "np_add NegInf PosInf = NaN"
| "np_add PosInf _ = PosInf"
| "np_add NegInf _ = NegInf"
| "np_add _ PosInf = PosInf"
| "np_add _ NegInf = NegInf"

text \<open>\<open>Series.sum()\<close> and \<open>Series.mean()\<close> skip NaN entries (\<open>skipna=True\<close>);
  the mean of no entries is \<open>0/0\<close>, that is NaN.\<close>

definition np_sum :: "npfloat list \<Rightarrow> npfloat" where
  "np_sum xs = foldl np_add (Fin 0) (filter (\<lambda>x. x \<noteq> NaN) xs)"

definition np_mean :: "npfloat list \<Rightarrow> npfloat" where
  "np_mean xs =
     (let ys = filter (\<lambda>x. x \<noteq> NaN) xs
      in np_div (foldl np_add (Fin 0) ys) (Fin (real (length ys))))"

definition np_of_nat :: "nat \<Rightarrow> npfloat" where
  "np_of_nat n = Fin (real n)"

definition np_of_int :: "int \<Rightarrow> npfloat" where
  "np_of_int n = Fin (real_of_int n)"

text \<open>Sums over an int64 column or array are taken in 64-bit two's complement and
  wrap around; means are taken in floating point.\<close>

definition wrap64 :: "int \<Rightarrow> int" where
  "wrap64 n = (n + 2 ^ 63) mod 2 ^ 64 - 2 ^ 63"

text \<open>The exceptions the analyses can raise.\<close>

datatype error = TypeError | KeyError | ValueError | ZeroDivisionError

section \<open>The badge table\<close>

datatype month = Jan | Feb | Mar | Apr | May | Jun | Jul | Aug | Sep

definition months :: "month list" where
  "months = [Jan, Feb, Mar, Apr, May, Jun, Jul, Aug, Sep]"

text \<open>One row per employee: the \<open>Floor\<close> column and the nine month columns. Every
  cell is an integer (an int64 value in a table with rows); missing cells are not
  modelled.\<close>

record employee =
  Floor :: int
  Swipes :: "month \<Rightarrow> int"

type_synonym badge_table = "employee list"

record building =
  floors :: nat
  floor_1_2_sqft :: nat
  floor_3_6_sqft :: nat
  total_sqft :: nat
  employees :: nat
  working_days_per_month :: nat
  conference_rooms :: "string list"

text \<open>The dictionary \<open>self.building_info\<close> set by \<open>__init__\<close>.\<close>

definition building37_info :: building where
  "building37_info =
     \<lparr> floors = 6, floor_1_2_sqft = 44352, floor_3_6_sqft = 22728,
       total_sqft = 2 * 44352 + 4 * 22728, employees = 356,
       working_days_per_month = 20,
       conference_rooms =
         [''Room 133'', ''Room 128'', ''Room 129'', ''Room 130'', ''Room 131'',
          ''Room 132'', ''Room 135'', ''Van Curler A'', ''Van Curler B'', ''Schuyler'',
          ''Glen'', ''Van Buren'', ''Van Patten'', ''Auditorium A'', ''Auditorium B'',
          ''Auditorium C''] \<rparr>"

subsection \<open>Column and row sums\<close>

text \<open>\<open>badge_data[months].sum()\<close>: the total of each month column.\<close>

definition monthly_swipes :: "badge_table \<Rightarrow> month \<Rightarrow> int" where
  "monthly_swipes badge m = wrap64 (sum_list (map (\<lambda>e. Swipes e m) badge))"

text \<open>\<open>badge_data[months].sum(axis=1)\<close>: the nine-month total of each employee.\<close>

definition row_total :: "employee \<Rightarrow> int" where
  "row_total e = wrap64 (sum_list (map (Swipes e) months))"

definition total_swipes :: "badge_table \<Rightarrow> int list" where
  "total_swipes badge = map row_total badge"

text \<open>\<open>badge_data.groupby('Floor')[months].sum().sum(axis=1)\<close>: one entry per floor
  that occurs, in ascending floor order; the month columns are summed within the floor
  and the nine sums are added up.\<close>

definition floor_keys :: "badge_table \<Rightarrow> int list" where
  "floor_keys badge = sort (remdups (map Floor badge))"

definition floor_occupancy :: "badge_table \<Rightarrow> (int \<times> int) list" where
  "floor_occupancy badge =
     map (\<lambda>f. (f, wrap64 (sum_list
                 (map (monthly_swipes (filter (\<lambda>e. Floor e = f) badge)) months))))
       (floor_keys badge)"

text \<open>\<open>floor_occupancy.sum()\<close>.\<close>

definition floor_occupancy_sum :: "(int \<times> int) list \<Rightarrow> int" where
  "floor_occupancy_sum occ = wrap64 (sum_list (map snd occ))"

subsection \<open>Utilization tiers\<close>

text \<open>The four boolean series of \<open>analyze_occupancy_patterns\<close>, and \<open>.sum()\<close> of a
  boolean series, which counts its true entries.\<close>

definition very_low_util :: "int list \<Rightarrow> bool list" where
  "very_low_util ts = map (\<lambda>t. t < 30) ts"

definition low_util :: "int list \<Rightarrow> bool list" where
  "low_util ts = map (\<lambda>t. t \<ge> 30 \<and> t < 90) ts"

definition medium_util :: "int list \<Rightarrow> bool list" where
  "medium_util ts = map (\<lambda>t. t \<ge> 90 \<and> t < 140) ts"

definition high_util :: "int list \<Rightarrow> bool list" where
  "high_util ts = map (\<lambda>t. t \<ge> 140) ts"

definition count_true :: "bool list \<Rightarrow> nat" where
  "count_true bs = length (filter (\<lambda>b. b) bs)"

section \<open>Occupancy analysis\<close>

text \<open>
  \<open>analyze_occupancy_patterns\<close> prints three tables and returns a dictionary. The
  model keeps every number it computes: the printed rows as records, the returned
  dictionary as \<open>occupancy_result\<close>. Text formatting is left out.
\<close>

record month_row =
  mr_month :: month
  mr_swipes :: int
  mr_avg_days :: npfloat
  mr_rate :: npfloat

record floor_row =
  fr_floor :: int
  fr_swipes :: int
  fr_pct :: npfloat
  fr_emp_count :: nat

record tier_row =
  tr_count :: nat
  tr_pct :: npfloat

record occupancy_result =
  res_monthly_swipes :: "month \<Rightarrow> int"
  avg_days_in_office :: npfloat
  attendance_rate :: npfloat
  floor_distribution :: "(int \<times> int) list"
  low_utilizers :: nat

record occupancy_report =
  monthly_table :: "month_row list"
  average_row :: "npfloat \<times> npfloat \<times> npfloat"
  floor_table :: "floor_row list"
  tier_table :: "tier_row list"
  rarely_on_site :: "nat \<times> npfloat \<times> nat"
  returned :: occupancy_result

text \<open>Lines 88-92: \<open>avg_days = swipes / num_employees\<close>,
  \<open>rate = (avg_days / working_days) * 100\<close>.\<close>

definition month_metrics :: "nat \<Rightarrow> nat \<Rightarrow> month \<Rightarrow> int \<Rightarrow> month_row" where
  "month_metrics num_employees working_days m swipes =
     (let avg_days = np_div (np_of_int swipes) (np_of_nat num_employees);
          rate = np_mul (np_div avg_days (np_of_nat working_days)) (Fin 100)
      in \<lparr> mr_month = m, mr_swipes = swipes, mr_avg_days = avg_days, mr_rate = rate \<rparr>)"

text \<open>Lines 106-109: \<open>pct = swipes / floor_occupancy.sum() * 100\<close>.\<close>

definition floor_metrics :: "badge_table \<Rightarrow> (int \<times> int) list \<Rightarrow> int \<times> int \<Rightarrow> floor_row" where
  "floor_metrics badge occ fs =
     \<lparr> fr_floor = fst fs, fr_swipes = snd fs,
       fr_pct = np_mul (np_div (np_of_int (snd fs)) (np_of_int (floor_occupancy_sum occ))) (Fin 100),
       fr_emp_count = length (filter (\<lambda>e. Floor e = fst fs) badge) \<rparr>"

text \<open>Lines 121-124: a tier's head count and \<open>count / num_employees * 100\<close>.\<close>

definition tier_metrics :: "nat \<Rightarrow> bool list \<Rightarrow> tier_row" where
  "tier_metrics num_employees series =
     \<lparr> tr_count = count_true series,
       tr_pct = np_mul (np_div (np_of_nat (count_true series)) (np_of_nat num_employees)) (Fin 100) \<rparr>"

text \<open>The numbers computed on a badge table that has rows.\<close>

definition occupancy_report_of :: "building \<Rightarrow> badge_table \<Rightarrow> occupancy_report" where
  "occupancy_report_of info badge =
     (let num_employees = length badge;
          working_days = working_days_per_month info;
          avg_days_in_office_per_month =
            map (\<lambda>m. np_div (np_of_int (monthly_swipes badge m)) (np_of_nat num_employees)) months;
          overall_avg = np_mean avg_days_in_office_per_month;
          overall_rate = np_mul (np_div overall_avg (np_of_nat working_days)) (Fin 100);
          occ = floor_occupancy badge;
          ts = total_swipes badge;
          low_count = count_true (very_low_util ts) + count_true (low_util ts)
      in \<lparr> monthly_table =
             map (\<lambda>m. month_metrics num_employees working_days m (monthly_swipes badge m)) months,
           average_row =
             (np_mean (map (\<lambda>m. np_of_int (monthly_swipes badge m)) months),
              overall_avg, overall_rate),
           floor_table = map (floor_metrics badge occ) occ,
           tier_table =
             map (tier_metrics num_employees)
               [very_low_util ts, low_util ts, medium_util ts, high_util ts],
           rarely_on_site =
             (low_count,
              np_mul (np_div (np_of_nat low_count) (np_of_nat num_employees)) (Fin 100),
              low_count * 120),
           returned =
             \<lparr> res_monthly_swipes = monthly_swipes badge,
               avg_days_in_office = overall_avg,
               attendance_rate = overall_rate,
               floor_distribution = occ,
               low_utilizers = low_count \<rparr> \<rparr>)"

text \<open>
  \<open>analyze_occupancy_patterns\<close>. Line 80 divides the monthly sums by the number of
  rows. A badge table without rows comes out of \<open>read_csv\<close> with object-typed columns,
  whose sums are Python integers, and dividing those by the row count 0 raises
  \<open>ZeroDivisionError\<close>. With rows the columns are int64, and a division by zero
  yields NaN or an infinity.
\<close>

definition analyze_occupancy_patterns :: "building \<Rightarrow> badge_table \<Rightarrow> error + occupancy_report" where
  "analyze_occupancy_patterns info badge =
     (if badge = [] then Inl ZeroDivisionError else Inr (occupancy_report_of info badge))"


text \<open>The 100-employee table of the end-to-end scenario: every employee swipes ten
  times a month, so every monthly total is 1000.\<close>

definition scenario_badge :: badge_table where
  "scenario_badge = replicate 100 \<lparr> Floor = 1, Swipes = (\<lambda>m. 10) \<rparr>"





section \<open>The booking table\<close>

text \<open>
  A time column holds the text read from the file until \<open>pd.to_datetime\<close> replaces
  it by timestamps; \<open>errors='coerce'\<close> turns unparsable text into NaT (\<open>None\<close>). A
  parsed time of day is a timestamp on 1900-01-01, kept as its seconds since that
  midnight. The parser itself belongs to pandas and is a parameter of the model.
\<close>

datatype tcell = Raw string | Stamp "int option"

type_synonym date = "int \<times> nat \<times> nat"

definition dt_year :: "date \<Rightarrow> int" where
  "dt_year d = fst d"

text \<open>One row per reservation. \<open>Attendees\<close> is the column \<open>#Attendees\<close>; \<open>None\<close> in
  \<open>Date\<close>, \<open>Attendees\<close> or \<open>Attendance_Type\<close> is a missing cell (NaT, NaN). \<open>Hours\<close> is
  \<open>None\<close> as long as the frame has no such column.\<close>

record booking =
  Room :: string
  Date :: "date option"
  Start :: tcell
  Finish :: tcell
  Attendees :: "int option"
  Attendance_Type :: "string option"
  Hours :: "npfloat option"

type_synonym booking_table = "booking list"

fun to_datetime_cell :: "(string \<Rightarrow> int option) \<Rightarrow> tcell \<Rightarrow> tcell" where
  "to_datetime_cell to_datetime (Raw s) = Stamp (to_datetime s)"
| "to_datetime_cell to_datetime (Stamp t) = Stamp t"

text \<open>\<open>(Finish - Start).dt.total_seconds() / 3600\<close>; NaT on either side gives NaN.\<close>

fun hours_between :: "tcell \<Rightarrow> tcell \<Rightarrow> npfloat" where
  "hours_between (Stamp (Some f)) (Stamp (Some s)) = Fin (real_of_int (f - s) / 3600)"
| "hours_between _ _ = NaN"

text \<open>Comparisons of a float cell with a constant; every comparison with NaN is false.\<close>

fun np_le :: "npfloat \<Rightarrow> real \<Rightarrow> bool" where
  "np_le (Fin a) c = (a \<le> c)"
| "np_le NegInf c = True"
| "np_le _ c = False"

fun np_lt :: "npfloat \<Rightarrow> real \<Rightarrow> bool" where
  "np_lt (Fin a) c = (a < c)"
| "np_lt NegInf c = True"
| "np_lt _ c = False"

fun np_gt :: "npfloat \<Rightarrow> real \<Rightarrow> bool" where
  "np_gt (Fin a) c = (a > c)"
| "np_gt PosInf c = True"
| "np_gt _ c = False"

text \<open>\<open>df.loc[mask, 'Hours'] = v\<close> on one row.\<close>

definition loc_set_hours :: "(npfloat \<Rightarrow> bool) \<Rightarrow> real \<Rightarrow> booking \<Rightarrow> booking" where
  "loc_set_hours sel v b =
     (case Hours b of
        None \<Rightarrow> b
      | Some h \<Rightarrow> if sel h then b\<lparr> Hours := Some (Fin v) \<rparr> else b)"

subsection \<open>The column steps of the conference analyses\<close>

definition is_2025 :: "booking \<Rightarrow> bool" where
  "is_2025 b = (case Date b of None \<Rightarrow> False | Some d \<Rightarrow> dt_year d = 2025)"

definition set_Start :: "(string \<Rightarrow> int option) \<Rightarrow> booking \<Rightarrow> booking" where
  "set_Start to_datetime b = b\<lparr> Start := to_datetime_cell to_datetime (Start b) \<rparr>"

definition set_Finish :: "(string \<Rightarrow> int option) \<Rightarrow> booking \<Rightarrow> booking" where
  "set_Finish to_datetime b = b\<lparr> Finish := to_datetime_cell to_datetime (Finish b) \<rparr>"

definition set_Hours :: "booking \<Rightarrow> booking" where
  "set_Hours b = b\<lparr> Hours := Some (hours_between (Finish b) (Start b)) \<rparr>"

text \<open>\<open>ge_building_analysis.py\<close> lines 315-321 and \<open>v2_ge_building_analysis.py\<close> lines
  294-300, step by step on the rows of \<open>df_2025\<close>.\<close>

definition hours_steps :: "(string \<Rightarrow> int option) \<Rightarrow> (booking \<Rightarrow> booking) list" where
  "hours_steps to_datetime =
     [set_Start to_datetime, set_Finish to_datetime, set_Hours,
      loc_set_hours (\<lambda>h. np_le h 0) 15,
      loc_set_hours (\<lambda>h. np_gt h 20) 15]"

text \<open>\<open>v1_ge_building_analysis.py\<close> lines 175-181: the first mask is \<open>Hours < 0\<close>.\<close>

definition v1_hours_steps :: "(string \<Rightarrow> int option) \<Rightarrow> (booking \<Rightarrow> booking) list" where
  "v1_hours_steps to_datetime =
     [set_Start to_datetime, set_Finish to_datetime, set_Hours,
      loc_set_hours (\<lambda>h. np_lt h 0) 15,
      loc_set_hours (\<lambda>h. np_gt h 20) 15]"

definition apply_steps :: "(booking \<Rightarrow> booking) list \<Rightarrow> booking_table \<Rightarrow> booking_table" where
  "apply_steps steps df = foldl (\<lambda>d step. map step d) df steps"

text \<open>The frame \<open>df_2025\<close> after the duration has been derived.\<close>

definition derive_hours :: "(string \<Rightarrow> int option) \<Rightarrow> booking_table \<Rightarrow> booking_table" where
  "derive_hours to_datetime conference = apply_steps (hours_steps to_datetime) (filter is_2025 conference)"

definition v1_derive_hours :: "(string \<Rightarrow> int option) \<Rightarrow> booking_table \<Rightarrow> booking_table" where
  "v1_derive_hours to_datetime conference = apply_steps (v1_hours_steps to_datetime) (filter is_2025 conference)"

text \<open>A booking from midnight to midnight (\<open>12:00 AM\<close> to \<open>12:00 AM\<close>), and a parser
  that reads that one time of day.\<close>

definition midnight_parser :: "string \<Rightarrow> int option" where
  "midnight_parser s = (if s = ''12:00 AM'' then Some 0 else if s = ''9:00 AM'' then Some 32400
     else if s = ''11:30 PM'' then Some 84600 else None)"

definition all_day_booking :: booking where
  "all_day_booking =
     \<lparr> Room = ''Auditorium A'', Date = Some (2025, 3, 14), Start = Raw ''12:00 AM'',
       Finish = Raw ''12:00 AM'', Attendees = Some 0, Attendance_Type = Some ''All Hands'',
       Hours = None \<rparr>"

subsection \<open>Conference room utilization\<close>

text \<open>The boolean series \<open>ghost\<close>: \<open>df_2025['#Attendees'] == 0\<close> in
  \<open>ge_building_analysis.py\<close>; \<open>v2_ge_building_analysis.py\<close> also requires
  \<open>df_2025['Attendance Type'] != 'All Hands'\<close> (a missing type is not equal to it).\<close>

definition ghost :: "booking \<Rightarrow> bool" where
  "ghost b = (Attendees b = Some 0)"

definition v2_ghost :: "booking \<Rightarrow> bool" where
  "v2_ghost b = (Attendees b = Some 0 \<and> Attendance_Type b \<noteq> Some ''All Hands'')"

definition all_hands_zero :: "booking \<Rightarrow> bool" where
  "all_hands_zero b = (Attendees b = Some 0 \<and> Attendance_Type b = Some ''All Hands'')"

text \<open>The \<open>Hours\<close> cell of a row; the summaries read it only after the column has been
  set.\<close>

definition hours_cell :: "booking \<Rightarrow> npfloat" where
  "hours_cell b = (case Hours b of None \<Rightarrow> NaN | Some h \<Rightarrow> h)"

text \<open>\<open>df_2025['#Attendees'].sum()\<close>: an int64 sum when no cell is missing, a float
  sum over the present cells otherwise.\<close>

definition attendees_sum :: "booking_table \<Rightarrow> int" where
  "attendees_sum df =
     (if list_all (\<lambda>b. Attendees b \<noteq> None) df
      then wrap64 (sum_list (List.map_filter Attendees df))
      else sum_list (List.map_filter Attendees df))"

record conference_result =
  total_bookings :: nat
  ghost_bookings :: nat
  ghost_hours :: npfloat
  wasted_energy_kwh :: npfloat

record conference_report =
  cf_total_attendees :: int
  cf_total_hours :: npfloat
  cf_ghost_pct :: npfloat
  cf_all_hands_zero :: nat
  cf_annual_cost :: npfloat
  cf_returned :: conference_result

text \<open>Everything computed after the duration column exists; \<open>is_ghost\<close> is the ghost
  series of the version at hand. \<open>cf_all_hands_zero\<close> is printed by
  \<open>v2_ge_building_analysis.py\<close> only. The list of the five most frequent booking
  types, which is only printed, is left out.\<close>

definition conference_summary :: "(booking \<Rightarrow> bool) \<Rightarrow> booking_table \<Rightarrow> conference_report" where
  "conference_summary is_ghost df_2025 =
     (let ghost_series = map is_ghost df_2025;
          gh = np_sum (map hours_cell (filter is_ghost df_2025))
      in \<lparr> cf_total_attendees = attendees_sum df_2025,
           cf_total_hours = np_sum (map hours_cell df_2025),
           cf_ghost_pct =
             np_mul (np_div (np_of_nat (count_true ghost_series)) (np_of_nat (length df_2025))) (Fin 100),
           cf_all_hands_zero = count_true (map all_hands_zero df_2025),
           cf_annual_cost = np_mul gh (Fin (5 * 0.15 * (12 / 9))),
           cf_returned =
             \<lparr> total_bookings = length df_2025,
               ghost_bookings = count_true ghost_series,
               ghost_hours = gh,
               wasted_energy_kwh = np_mul gh (Fin 5) \<rparr> \<rparr>)"

definition analyze_conference_room_utilization ::
  "(string \<Rightarrow> int option) \<Rightarrow> booking_table \<Rightarrow> conference_report" where
  "analyze_conference_room_utilization to_datetime conference =
     conference_summary ghost (derive_hours to_datetime conference)"

definition v2_analyze_conference_room_utilization ::
  "(string \<Rightarrow> int option) \<Rightarrow> booking_table \<Rightarrow> conference_report" where
  "v2_analyze_conference_room_utilization to_datetime conference =
     conference_summary v2_ghost (derive_hours to_datetime conference)"

section \<open>Advanced metrics\<close>

fun np_less :: "npfloat \<Rightarrow> npfloat \<Rightarrow> bool" where
  "np_less (Fin a) (Fin b) = (a < b)"
| "np_less NaN _ = False"
| "np_less _ NaN = False"
| "np_less NegInf NegInf = False"
| "np_less NegInf _ = True"
| "np_less PosInf _ = False"
| "np_less (Fin a) PosInf = True"
| "np_less (Fin a) NegInf = False"

fun np_neg :: "npfloat \<Rightarrow> npfloat" where
  "np_neg (Fin a) = Fin (- a)"
| "np_neg PosInf = NegInf"
| "np_neg NegInf = PosInf"
| "np_neg NaN = NaN"

definition np_sub :: "npfloat \<Rightarrow> npfloat \<Rightarrow> npfloat" where
  "np_sub a b = np_add a (np_neg b)"

text \<open>\<open>Series.nlargest(n)\<close> and \<open>Series.nsmallest(n)\<close>: the first \<open>n\<close> entries in
  descending, respectively ascending, order of value, equal values in their original
  order.\<close>

definition nlargest :: "nat \<Rightarrow> (month \<times> int) list \<Rightarrow> (month \<times> int) list" where
  "nlargest n items = take n (sort_key (\<lambda>p. - snd p) items)"

definition nsmallest :: "nat \<Rightarrow> (month \<times> int) list \<Rightarrow> (month \<times> int) list" where
  "nsmallest n items = take n (sort_key snd items)"

record peak_report =
  pk_peak_months :: "(month \<times> int) list"
  pk_low_months :: "(month \<times> int) list"
  pk_peak_avg :: npfloat
  pk_low_avg :: npfloat
  pk_variance :: npfloat

text \<open>Section 1, lines 364-371. \<open>nlargest\<close> refuses object-typed values: on a badge
  table without rows, whose columns \<open>read_csv\<close> leaves object-typed, line 365 raises
  \<open>TypeError\<close>.\<close>

definition peak_analysis :: "badge_table \<Rightarrow> error + peak_report" where
  "peak_analysis badge =
     (if badge = [] then Inl TypeError
      else
        (let series = map (\<lambda>m. (m, monthly_swipes badge m)) months;
             peak_months = nlargest 3 series;
             low_months = nsmallest 3 series;
             peak_avg = np_mean (map (\<lambda>p. np_of_int (snd p)) peak_months);
             low_avg = np_mean (map (\<lambda>p. np_of_int (snd p)) low_months)
         in Inr \<lparr> pk_peak_months = peak_months, pk_low_months = low_months,
                  pk_peak_avg = peak_avg, pk_low_avg = low_avg,
                  pk_variance = np_mul (np_div (np_sub peak_avg low_avg) low_avg) (Fin 100) \<rparr>))"

text \<open>Section 2, lines 377-393: \<open>efficiency = (swipes / (emp * 180)) * 100\<close> for every
  floor in ascending order.\<close>

definition efficiency_scores :: "badge_table \<Rightarrow> (int \<times> npfloat) list" where
  "efficiency_scores badge =
     map (\<lambda>(f, swipes).
            (f, np_mul (np_div (np_of_int swipes)
                          (np_of_nat (length (filter (\<lambda>e. Floor e = f) badge) * 180))) (Fin 100)))
       (floor_occupancy badge)"

text \<open>Line 397: \<open>min(efficiency_scores, key=efficiency_scores.get)\<close> returns the first
  key with the least score and raises \<open>ValueError\<close> on an empty dictionary.\<close>

fun min_by_score :: "(int \<times> npfloat) list \<Rightarrow> error + int" where
  "min_by_score [] = Inl ValueError"
| "min_by_score (x # xs) =
     Inr (fst (foldl (\<lambda>best y. if np_less (snd y) (snd best) then y else best) x xs))"

text \<open>Section 5, lines 449-465: one emitted group of lines per room category that has
  bookings.\<close>

record cost_benefit_row =
  cb_room_type :: string
  cb_bookings :: nat
  cb_avg_attendees :: npfloat
  cb_ghost_pct :: npfloat

definition large_rooms :: "string list" where
  "large_rooms = [''Auditorium A'', ''Auditorium B'', ''Auditorium C'']"

definition medium_rooms :: "string list" where
  "medium_rooms = [''Room 128'', ''Room 129'', ''Room 130'', ''Room 131'', ''Room 132'',
     ''Room 133'', ''Room 135'']"

definition room_cost_benefit :: "booking_table \<Rightarrow> string \<times> string list \<Rightarrow> cost_benefit_row list" where
  "room_cost_benefit df_2025 cat =
     (let room_data = filter (\<lambda>b. Room b \<in> set (snd cat)) df_2025
      in if length room_data > 0 then
           (let avg_attendees =
                  np_mean (map np_of_int (filter (\<lambda>n. n > 0) (List.map_filter Attendees room_data)));
                total_bookings = length room_data;
                ghost_pct =
                  np_mul (np_div (np_of_nat (count_true (map ghost room_data)))
                            (np_of_nat total_bookings)) (Fin 100)
            in [\<lparr> cb_room_type = fst cat, cb_bookings = total_bookings,
                  cb_avg_attendees = avg_attendees, cb_ghost_pct = ghost_pct \<rparr>])
         else [])"

definition conference_cost_benefit :: "booking_table \<Rightarrow> cost_benefit_row list" where
  "conference_cost_benefit df_2025 =
     concat (map (room_cost_benefit df_2025)
       [(''Large (200+ cap)'', large_rooms), (''Medium (20-50 cap)'', medium_rooms)])"

text \<open>Section 6, lines 471-476.\<close>

definition full_remote :: "int list \<Rightarrow> nat" where
  "full_remote ts = count_true (map (\<lambda>t. t < 20) ts)"

definition mostly_remote :: "int list \<Rightarrow> nat" where
  "mostly_remote ts = count_true (map (\<lambda>t. t \<ge> 20 \<and> t < 90) ts)"

record advanced_result =
  eui_current :: real
  eui_target :: real
  remote_employees :: nat
  space_reduction_potential :: nat
  cost_per_swipe :: npfloat

record advanced_report =
  ad_peaks :: peak_report
  ad_efficiency :: "(int \<times> npfloat) list"
  ad_underutilized :: int
  ad_cost_benefit :: "cost_benefit_row list"
  ad_returned :: advanced_result

text \<open>Section 8, lines 509-511.\<close>

definition cost_per_swipe_of :: "badge_table \<Rightarrow> npfloat" where
  "cost_per_swipe_of badge =
     (let total_annual_cost = (5666000 * 0.15) + (273000 * 1.20) + (129777000 * 0.01);
          total_swipes_annual =
            real_of_int (wrap64 (sum_list (map (monthly_swipes badge) months))) * (12 / 9)
      in np_div (Fin total_annual_cost) (Fin total_swipes_annual))"

text \<open>The numbers of \<open>advanced_metrics_analysis\<close> that it returns, that decide
  whether it raises, or that the peak and cost-benefit sections print; \<open>df_2025\<close> is the
  copy of the 2025 bookings. The swipes per square foot, the benchmark table, the
  month-over-month changes and the water ratio are printed only, raise nothing on a
  table with rows, and are left out.\<close>

definition advanced_report_of ::
  "badge_table \<Rightarrow> booking_table \<Rightarrow> peak_report \<Rightarrow> int \<Rightarrow> advanced_report" where
  "advanced_report_of badge df_2025 peaks worst =
     (let ts = total_swipes badge;
          remote = full_remote ts + mostly_remote ts
      in \<lparr> ad_peaks = peaks,
           ad_efficiency = efficiency_scores badge,
           ad_underutilized = worst,
           ad_cost_benefit = conference_cost_benefit df_2025,
           ad_returned =
             \<lparr> eui_current = 31.5, eui_target = 10.0,
               remote_employees = remote,
               space_reduction_potential = remote * 120,
               cost_per_swipe = cost_per_swipe_of badge \<rparr> \<rparr>)"

definition advanced_metrics_analysis :: "badge_table \<Rightarrow> booking_table \<Rightarrow> error + advanced_report" where
  "advanced_metrics_analysis badge conference =
     (case peak_analysis badge of
        Inl e \<Rightarrow> Inl e
      | Inr peaks \<Rightarrow>
          (case min_by_score (efficiency_scores badge) of
             Inl e \<Rightarrow> Inl e
           | Inr worst \<Rightarrow>
               Inr (advanced_report_of badge (filter is_2025 conference) peaks worst)))"

section \<open>Energy consumption and correlation\<close>

definition electricity :: "real list" where
  "electricity = [463000, 413000, 485000, 474000, 461000, 477000, 516000, 491000, 470000]"

definition gas :: "real list" where
  "gas = [48000, 41000, 35000, 23000, 14000, 12000, 8000, 11000, 12000]"

definition water :: "real list" where
  "water = [5978000, 5901000, 6083000, 9405000, 9434000, 9405000, 17143000, 17287000, 16696000]"

record energy_result =
  electricity_per_sqft :: npfloat
  gas_per_sqft :: npfloat
  water_per_sqft :: npfloat
  total_co2_tons :: real
  co2_breakdown :: "real \<times> real \<times> real"
  water_surge_multiplier :: npfloat

text \<open>\<open>analyze_energy_consumption\<close>: annual totals are literals, the area comes from
  \<open>building_info\<close>; \<open>water[2:5]\<close> is March to May, \<open>water[6:9]\<close> July to September.\<close>

definition analyze_energy_consumption :: "building \<Rightarrow> energy_result" where
  "analyze_energy_consumption info =
     (let total_electricity = 5666000; total_gas = 273000; total_water = 129777000;
          sqft = np_of_nat (total_sqft info);
          spring_water_avg = np_mean (map Fin (take 3 (drop 2 water)));
          summer_water_avg = np_mean (map Fin (take 3 (drop 6 water)));
          co2_electricity = total_electricity * 0.92 / 2000;
          co2_gas = total_gas * 11.7 / 2000;
          water_embedded_kwh = (total_water / 1000) * 27.5;
          co2_water = water_embedded_kwh * 0.92 / 2000
      in \<lparr> electricity_per_sqft = np_div (Fin total_electricity) sqft,
           gas_per_sqft = np_div (Fin total_gas) sqft,
           water_per_sqft = np_div (Fin total_water) sqft,
           total_co2_tons = co2_electricity + co2_gas + co2_water,
           co2_breakdown = (co2_electricity, co2_gas, co2_water),
           water_surge_multiplier = np_div summer_water_avg spring_water_avg \<rparr>)"

subsection \<open>Pearson correlation\<close>

definition mean_of :: "real list \<Rightarrow> real" where
  "mean_of xs = sum_list xs / real (length xs)"

definition centered :: "real list \<Rightarrow> real list" where
  "centered xs = map (\<lambda>v. v - mean_of xs) xs"

definition dot :: "real list \<Rightarrow> real list \<Rightarrow> real" where
  "dot xs ys = sum_list (map (\<lambda>(a, b). a * b) (zip xs ys))"

definition constant_input :: "real list \<Rightarrow> bool" where
  "constant_input xs = list_all (\<lambda>v. v = hd xs) xs"

text \<open>
  Modelled from the spec: \<open>scipy.stats.pearsonr\<close>, which the repository calls and
  does not contain. The spec describes it as the Pearson correlation coefficient of
  two equal-length numeric sequences, undefined (NaN) when either sequence has zero
  variance. The coefficient is the sum of products of the deviations from the means
  divided by the product of the norms of the deviations; unequal lengths and
  sequences of fewer than two values are rejected with \<open>ValueError\<close>.
\<close>

definition pearsonr :: "real list \<Rightarrow> real list \<Rightarrow> error + npfloat" where
  "pearsonr x y =
     (if length x \<noteq> length y then Inl ValueError
      else if length x < 2 then Inl ValueError
      else
        (let xm = centered x; ym = centered y
         in if dot xm xm = 0 \<or> dot ym ym = 0 then Inr NaN
            else Inr (Fin (dot xm ym / (sqrt (dot xm xm) * sqrt (dot ym ym))))))"

record correlation_result =
  corr_electricity :: npfloat
  corr_gas :: npfloat
  corr_water :: npfloat
  occupancy_rate :: npfloat

text \<open>\<open>correlate_occupancy_with_energy\<close>, lines 241-302: the three coefficients and
  the average occupancy rate \<open>monthly_swipes.mean() / (356 * 20) * 100\<close>. On a badge
  table without rows the monthly totals are Python integers in an object-typed array;
  the spec does not say what \<open>pearsonr\<close> makes of such an array, and no statement
  about the coefficients below is made for that table.\<close>

definition correlate_occupancy_with_energy :: "badge_table \<Rightarrow> error + correlation_result" where
  "correlate_occupancy_with_energy badge =
     (let swipes = map (\<lambda>m. real_of_int (monthly_swipes badge m)) months
      in case pearsonr swipes electricity of
           Inl e \<Rightarrow> Inl e
         | Inr ce \<Rightarrow>
             (case pearsonr swipes gas of
                Inl e \<Rightarrow> Inl e
              | Inr cg \<Rightarrow>
                  (case pearsonr swipes water of
                     Inl e \<Rightarrow> Inl e
                   | Inr cw \<Rightarrow>
                       Inr \<lparr> corr_electricity = ce, corr_gas = cg, corr_water = cw,
                             occupancy_rate =
                               np_mul (np_div (np_mean (map Fin swipes)) (Fin (356 * 20))) (Fin 100) \<rparr>)))"

section \<open>The analyzer object and its tables\<close>

text \<open>
  The analyzer holds references to three data frames. Frames live in a store; a
  reference is an index into it. Boolean indexing and \<open>.copy()\<close> create a new frame,
  a column assignment changes the frame it is applied to in place.
\<close>

type_synonym addr = nat

datatype frame =
  BadgeFrame badge_table
| EnergyFrame "string list list"
| BookingFrame booking_table

type_synonym store = "frame list"

record analyzer =
  badge_data :: "addr option"
  energy_data :: "addr option"
  conference_data :: "addr option"
  building_info :: building

record state =
  heap :: store
  self :: analyzer

definition Building37Analyzer :: analyzer where
  "Building37Analyzer =
     \<lparr> badge_data = None, energy_data = None, conference_data = None,
       building_info = building37_info \<rparr>"

definition alloc :: "store \<Rightarrow> frame \<Rightarrow> addr \<times> store" where
  "alloc h f = (length h, h @ [f])"

definition lookup :: "store \<Rightarrow> addr \<Rightarrow> frame option" where
  "lookup h a = (if a < length h then Some (h ! a) else None)"

definition copy_frame :: "store \<Rightarrow> addr \<Rightarrow> addr \<times> store" where
  "copy_frame h a = (case lookup h a of None \<Rightarrow> (a, h) | Some f \<Rightarrow> alloc h f)"

text \<open>A column assignment on the booking frame at \<open>a\<close>.\<close>

definition modify_rows :: "store \<Rightarrow> addr \<Rightarrow> (booking \<Rightarrow> booking) \<Rightarrow> store" where
  "modify_rows h a step =
     (case lookup h a of
        Some (BookingFrame rows) \<Rightarrow> h[a := BookingFrame (map step rows)]
      | _ \<Rightarrow> h)"

text \<open>\<open>load_data\<close> on tables already read from the files: rows whose date did not
  parse are dropped from the booking table before it is stored.\<close>

definition load_data ::
  "badge_table \<Rightarrow> string list list \<Rightarrow> booking_table \<Rightarrow> state \<Rightarrow> state" where
  "load_data badge energy conference st =
     (let (a1, h1) = alloc (heap st) (BadgeFrame badge);
          (a2, h2) = alloc h1 (EnergyFrame energy);
          (a3, h3) = alloc h2 (BookingFrame (filter (\<lambda>b. Date b \<noteq> None) conference))
      in \<lparr> heap = h3,
           self = (self st)\<lparr> badge_data := Some a1, energy_data := Some a2,
                             conference_data := Some a3 \<rparr> \<rparr>)"

text \<open>Reading a table through the analyzer: \<open>None[...]\<close> raises \<open>TypeError\<close>, a frame
  without the expected columns \<open>KeyError\<close>.\<close>

definition read_badge :: "state \<Rightarrow> error + badge_table" where
  "read_badge st =
     (case badge_data (self st) of
        None \<Rightarrow> Inl TypeError
      | Some a \<Rightarrow> (case lookup (heap st) a of Some (BadgeFrame t) \<Rightarrow> Inr t | _ \<Rightarrow> Inl KeyError))"

definition read_bookings :: "state \<Rightarrow> error + booking_table" where
  "read_bookings st =
     (case conference_data (self st) of
        None \<Rightarrow> Inl TypeError
      | Some a \<Rightarrow> (case lookup (heap st) a of Some (BookingFrame t) \<Rightarrow> Inr t | _ \<Rightarrow> Inl KeyError))"

text \<open>\<open>self.conference_data[self.conference_data['Date'].dt.year == 2025].copy()\<close>:
  the selection is a new frame and the copy another one; the result is the address of
  the copy.\<close>

definition select_2025_copy :: "store \<Rightarrow> booking_table \<Rightarrow> addr \<times> store" where
  "select_2025_copy h conference =
     (let (a1, h1) = alloc h (BookingFrame (filter is_2025 conference))
      in copy_frame h1 a1)"

definition rows_at :: "store \<Rightarrow> addr \<Rightarrow> booking_table" where
  "rows_at h a = (case lookup h a of Some (BookingFrame rows) \<Rightarrow> rows | _ \<Rightarrow> [])"

subsection \<open>The analysis methods on the analyzer state\<close>

datatype outcome =
  Raised error
| Occupancy occupancy_report
| Energy energy_result
| Correlation correlation_result
| Conference conference_report
| Advanced advanced_report
| Summary

definition self_analyze_occupancy_patterns :: "state \<Rightarrow> outcome \<times> state" where
  "self_analyze_occupancy_patterns st =
     (case read_badge st of
        Inl e \<Rightarrow> (Raised e, st)
      | Inr badge \<Rightarrow>
          (case analyze_occupancy_patterns (building_info (self st)) badge of
             Inl e \<Rightarrow> (Raised e, st)
           | Inr r \<Rightarrow> (Occupancy r, st)))"

definition self_analyze_energy_consumption :: "state \<Rightarrow> outcome \<times> state" where
  "self_analyze_energy_consumption st =
     (Energy (analyze_energy_consumption (building_info (self st))), st)"

definition self_correlate_occupancy_with_energy :: "state \<Rightarrow> outcome \<times> state" where
  "self_correlate_occupancy_with_energy st =
     (case read_badge st of
        Inl e \<Rightarrow> (Raised e, st)
      | Inr badge \<Rightarrow>
          (case correlate_occupancy_with_energy badge of
             Inl e \<Rightarrow> (Raised e, st)
           | Inr r \<Rightarrow> (Correlation r, st)))"

definition self_analyze_conference_room_utilization ::
  "(string \<Rightarrow> int option) \<Rightarrow> state \<Rightarrow> outcome \<times> state" where
  "self_analyze_conference_room_utilization to_datetime st =
     (case read_bookings st of
        Inl e \<Rightarrow> (Raised e, st)
      | Inr conference \<Rightarrow>
          (let (df_2025, h1) = select_2025_copy (heap st) conference;
               h2 = foldl (\<lambda>h step. modify_rows h df_2025 step) h1 (hours_steps to_datetime)
           in (Conference (conference_summary ghost (rows_at h2 df_2025)), st\<lparr> heap := h2 \<rparr>)))"

definition self_advanced_metrics_analysis :: "state \<Rightarrow> outcome \<times> state" where
  "self_advanced_metrics_analysis st =
     (case read_badge st of
        Inl e \<Rightarrow> (Raised e, st)
      | Inr badge \<Rightarrow>
          (case peak_analysis badge of
             Inl e \<Rightarrow> (Raised e, st)
           | Inr peaks \<Rightarrow>
               (case min_by_score (efficiency_scores badge) of
                  Inl e \<Rightarrow> (Raised e, st)
                | Inr worst \<Rightarrow>
                    (case read_bookings st of
                       Inl e \<Rightarrow> (Raised e, st)
                     | Inr conference \<Rightarrow>
                         (let (df_2025, h1) = select_2025_copy (heap st) conference
                          in (Advanced (advanced_report_of badge (rows_at h1 df_2025) peaks worst),
                              st\<lparr> heap := h1 \<rparr>))))))"

definition self_generate_summary_report :: "state \<Rightarrow> outcome \<times> state" where
  "self_generate_summary_report st = (Summary, st)"

datatype analysis =
  AnalyzeOccupancy | AnalyzeEnergy | Correlate | AnalyzeConference | AdvancedMetrics
| SummaryReport

fun run_analysis :: "(string \<Rightarrow> int option) \<Rightarrow> analysis \<Rightarrow> state \<Rightarrow> outcome \<times> state" where
  "run_analysis td AnalyzeOccupancy st = self_analyze_occupancy_patterns st"
| "run_analysis td AnalyzeEnergy st = self_analyze_energy_consumption st"
| "run_analysis td Correlate st = self_correlate_occupancy_with_energy st"
| "run_analysis td AnalyzeConference st = self_analyze_conference_room_utilization td st"
| "run_analysis td AdvancedMetrics st = self_advanced_metrics_analysis st"
| "run_analysis td SummaryReport st = self_generate_summary_report st"

text \<open>The contents of the three tables the analyzer refers to.\<close>

definition stored_tables :: "state \<Rightarrow> frame option \<times> frame option \<times> frame option" where
  "stored_tables st =
     (Option.bind (badge_data (self st)) (lookup (heap st)),
      Option.bind (energy_data (self st)) (lookup (heap st)),
      Option.bind (conference_data (self st)) (lookup (heap st)))"

text \<open>Running a sequence of analyses, as the script's main block does, keeping the
  final state.\<close>

definition run_all :: "(string \<Rightarrow> int option) \<Rightarrow> analysis list \<Rightarrow> state \<Rightarrow> state" where
  "run_all td ops st = foldl (\<lambda>s op. snd (run_analysis td op s)) st ops"

text \<open>Every table reference of the analyzer points into the store.\<close>

definition refs_valid :: "state \<Rightarrow> bool" where
  "refs_valid st =
     (list_all (\<lambda>r. case r of None \<Rightarrow> True | Some a \<Rightarrow> a < length (heap st))
        [badge_data (self st), energy_data (self st), conference_data (self st)])"

text \<open>A small badge table, a booking table and the state after loading them.\<close>

definition small_badge :: badge_table where
  "small_badge = [\<lparr> Floor = 1, Swipes = (\<lambda>m. 2) \<rparr>, \<lparr> Floor = 3, Swipes = (\<lambda>m. 10) \<rparr>]"

definition morning_booking :: booking where
  "morning_booking =
     \<lparr> Room = ''Room 128'', Date = Some (2025, 5, 6), Start = Raw ''9:00 AM'',
       Finish = Raw ''11:30 PM'', Attendees = Some 12, Attendance_Type = Some ''Meeting'',
       Hours = None \<rparr>"

definition loaded_state :: state where
  "loaded_state =
     load_data small_badge [] [all_day_booking, morning_booking]
       \<lparr> heap = [], self = Building37Analyzer \<rparr>"

section \<open>Utilization tiers partition the employees\<close>

lemma count_true_map: "count_true (map P xs) = length (filter P xs)"
  by (induction xs) (simp_all add: count_true_def)

text \<open>
  Claim C1. For every series of nine-month totals (in particular the one of a badge
  table) and every employee position in it, exactly one of the four tier series is
  true at that position: the tiers \<open><30\<close>, \<open>[30,90)\<close>, \<open>[90,140)\<close>, \<open>\<ge>140\<close> cover
  every integer and no integer lies in two of them.
\<close>

theorem tiers_partition:
  "i < length ts \<Longrightarrow>
     count_true [very_low_util ts ! i, low_util ts ! i, medium_util ts ! i, high_util ts ! i] = 1"
  by (simp add: count_true_def very_low_util_def low_util_def medium_util_def high_util_def)

theorem tiers_partition_witness:
  "(1::nat) < length (total_swipes small_badge)
   \<and> count_true
        [very_low_util (total_swipes small_badge) ! 1, low_util (total_swipes small_badge) ! 1,
         medium_util (total_swipes small_badge) ! 1, high_util (total_swipes small_badge) ! 1] = 1"
  using tiers_partition [of 1 "total_swipes small_badge"]
  by (simp add: total_swipes_def small_badge_def)

section \<open>The derived booking duration\<close>

lemma apply_steps_map:
  "apply_steps steps df = map (\<lambda>b. foldl (\<lambda>x step. step x) b steps) df"
  unfolding apply_steps_def
  by (induction steps arbitrary: df) (simp_all add: comp_def)

lemma apply_steps_Cons: "apply_steps (step # steps) df = apply_steps steps (map step df)"
  by (simp add: apply_steps_def)

lemma hours_row_main:
  assumes "Start b = Raw s" "Finish b = Raw f" "td s = Some ts" "td f = Some tf"
  shows "Hours (foldl (\<lambda>x step. step x) b (hours_steps td)) =
         Some (Fin (if real_of_int (tf - ts) / 3600 \<le> 0 \<or> real_of_int (tf - ts) / 3600 > 20
                    then 15 else real_of_int (tf - ts) / 3600))"
  using assms
  by (simp add: hours_steps_def set_Start_def set_Finish_def set_Hours_def loc_set_hours_def)

lemma hours_row_v1:
  assumes "Start b = Raw s" "Finish b = Raw f" "td s = Some ts" "td f = Some tf"
  shows "Hours (foldl (\<lambda>x step. step x) b (v1_hours_steps td)) =
         Some (Fin (if real_of_int (tf - ts) / 3600 < 0 \<or> real_of_int (tf - ts) / 3600 > 20
                    then 15 else real_of_int (tf - ts) / 3600))"
  using assms
  by (simp add: v1_hours_steps_def set_Start_def set_Finish_def set_Hours_def loc_set_hours_def)

text \<open>In \<open>ge_building_analysis.py\<close> and \<open>v2_ge_building_analysis.py\<close> a 2025 booking
  whose times parse gets the sentinel 15 exactly when the parsed duration is at most 0
  or above 20 hours, and keeps the parsed duration otherwise.\<close>

lemma hours_sentinel_main:
  assumes "is_2025 b" "Start b = Raw s" "Finish b = Raw f" "td s = Some ts" "td f = Some tf"
  shows "map Hours (derive_hours td [b]) =
         [Some (Fin (if real_of_int (tf - ts) / 3600 \<le> 0 \<or> real_of_int (tf - ts) / 3600 > 20
                     then 15 else real_of_int (tf - ts) / 3600))]"
  using assms hours_row_main [OF assms(2-5)]
  by (simp add: derive_hours_def apply_steps_map)

text \<open>So the duration held after the two assignments lies in \<open>(0, 20]\<close> there.\<close>

lemma hours_bound_main:
  assumes "is_2025 b" "Start b = Raw s" "Finish b = Raw f" "td s = Some ts" "td f = Some tf"
  shows "list_all (\<lambda>h. np_gt h 0 \<and> np_le h 20) (map hours_cell (derive_hours td [b]))"
  using assms hours_row_main [OF assms(2-5)]
  by (simp add: derive_hours_def apply_steps_map hours_cell_def)

text \<open>In \<open>v1_ge_building_analysis.py\<close> the first mask is strict.\<close>

lemma hours_sentinel_v1:
  assumes "is_2025 b" "Start b = Raw s" "Finish b = Raw f" "td s = Some ts" "td f = Some tf"
  shows "map Hours (v1_derive_hours td [b]) =
         [Some (Fin (if real_of_int (tf - ts) / 3600 < 0 \<or> real_of_int (tf - ts) / 3600 > 20
                     then 15 else real_of_int (tf - ts) / 3600))]"
  using assms hours_row_v1 [OF assms(2-5)]
  by (simp add: v1_derive_hours_def apply_steps_map)

text \<open>The rows are worked on independently of each other.\<close>

lemma derive_hours_rows:
  "derive_hours td conference = concat (map (\<lambda>b. derive_hours td [b]) conference)"
  by (induction conference) (simp_all add: derive_hours_def apply_steps_map)

text \<open>
  Claim C2. The sentinel 15 is set exactly when the parsed duration is at most 0 or
  above 20 hours. The two later versions do so (\<open>hours_sentinel_main\<close>); the first
  version keeps a parsed duration of exactly 0: on a booking from 12:00 AM to 12:00 AM
  its duration column holds 0, where the later versions hold 15.
\<close>

theorem v1_zero_duration_kept:
  "map Hours (v1_derive_hours midnight_parser [all_day_booking]) = [Some (Fin 0)]
   \<and> map Hours (derive_hours midnight_parser [all_day_booking]) = [Some (Fin 15)]"
  by (simp add: v1_derive_hours_def derive_hours_def apply_steps_def v1_hours_steps_def hours_steps_def
      all_day_booking_def midnight_parser_def is_2025_def dt_year_def
      set_Start_def set_Finish_def set_Hours_def loc_set_hours_def)

text \<open>
  Claim C8. After the clamp the duration of a parsed row lies in \<open>(0, 20]\<close>. This
  holds in \<open>ge_building_analysis.py\<close> (\<open>hours_bound_main\<close>); in the first version the
  midnight-to-midnight booking ends with a duration that is not above 0.
\<close>

theorem v1_duration_outside_bound:
  "\<not> list_all (\<lambda>h. np_gt h 0 \<and> np_le h 20)
       (map hours_cell (v1_derive_hours midnight_parser [all_day_booking]))"
  by (simp add: v1_derive_hours_def apply_steps_def v1_hours_steps_def hours_cell_def
      all_day_booking_def midnight_parser_def is_2025_def dt_year_def
      set_Start_def set_Finish_def set_Hours_def loc_set_hours_def)

section \<open>Ghost bookings with and without the excluded type\<close>

lemma filter_mono_length:
  "(\<And>x. P x \<Longrightarrow> Q x) \<Longrightarrow> length (filter P xs) \<le> length (filter Q xs)"
  by (induction xs) auto

text \<open>
  Claim C6. On the same booking table the ghost-booking count that excludes the
  \<open>All Hands\<close> type (second version) is at most the count without the exclusion
  (\<open>ge_building_analysis.py\<close>).
\<close>

theorem ghost_exclusion_le:
  "ghost_bookings (cf_returned (v2_analyze_conference_room_utilization td conference))
   \<le> ghost_bookings (cf_returned (analyze_conference_room_utilization td conference))"
proof -
  have "length (filter v2_ghost df) \<le> length (filter ghost df)" for df
    by (rule filter_mono_length) (simp add: v2_ghost_def ghost_def)
  then show ?thesis
    by (simp add: v2_analyze_conference_room_utilization_def
        analyze_conference_room_utilization_def conference_summary_def Let_def count_true_map)
qed

theorem ghost_exclusion_le_witness:
  "ghost_bookings (cf_returned (v2_analyze_conference_room_utilization midnight_parser
       [all_day_booking, morning_booking])) = 0
   \<and> ghost_bookings (cf_returned (analyze_conference_room_utilization midnight_parser
       [all_day_booking, morning_booking])) = 1"
  using ghost_exclusion_le [of midnight_parser "[all_day_booking, morning_booking]"]
  by (simp add: v2_analyze_conference_room_utilization_def
      analyze_conference_room_utilization_def conference_summary_def Let_def count_true_map
      derive_hours_def apply_steps_map hours_steps_def is_2025_def dt_year_def
      all_day_booking_def morning_booking_def v2_ghost_def ghost_def count_true_def
      set_Start_def set_Finish_def set_Hours_def loc_set_hours_def midnight_parser_def)

section \<open>Remote-work head count and low utilizers\<close>

lemma count_split_20_90:
  "length (filter (\<lambda>t. t < 20) ts) + length (filter (\<lambda>t. t \<ge> 20 \<and> t < 90) ts)
   = length (filter (\<lambda>t::int. t < 90) ts)"
  by (induction ts) auto

lemma count_split_30_90:
  "length (filter (\<lambda>t. t < 30) ts) + length (filter (\<lambda>t. t \<ge> 30 \<and> t < 90) ts)
   = length (filter (\<lambda>t::int. t < 90) ts)"
  by (induction ts) auto

lemma floor_keys_nil: "floor_keys badge = [] \<longleftrightarrow> badge = []"
proof -
  have "set (floor_keys badge) = Floor ` set badge"
    by (simp add: floor_keys_def)
  then show ?thesis
    by (metis image_is_empty set_empty)
qed

lemma efficiency_scores_nil: "efficiency_scores badge = [] \<longleftrightarrow> badge = []"
  by (simp add: efficiency_scores_def floor_occupancy_def floor_keys_nil)

lemma peak_analysis_returns: "badge \<noteq> [] \<Longrightarrow> \<exists>p. peak_analysis badge = Inr p"
  by (simp add: peak_analysis_def Let_def)

lemma min_by_score_returns: "xs \<noteq> [] \<Longrightarrow> \<exists>w. min_by_score xs = Inr w"
  by (cases xs) simp_all

text \<open>The advanced analysis returns on every badge table that has rows.\<close>

lemma advanced_returns:
  assumes "badge \<noteq> []"
  shows "\<exists>p w. peak_analysis badge = Inr p \<and> min_by_score (efficiency_scores badge) = Inr w
     \<and> advanced_metrics_analysis badge conference =
         Inr (advanced_report_of badge (filter is_2025 conference) p w)"
proof -
  obtain p where p: "peak_analysis badge = Inr p"
    using assms peak_analysis_returns by blast
  obtain w where w: "min_by_score (efficiency_scores badge) = Inr w"
    using assms min_by_score_returns [of "efficiency_scores badge"]
    by (auto simp: efficiency_scores_nil)
  show ?thesis
    using p w by (simp add: advanced_metrics_analysis_def)
qed

text \<open>
  Claim C9. For every badge table that has rows, the advanced metrics and the
  occupancy analysis both return, the remote-work head count of the one
  (\<open>full_remote + mostly_remote\<close>) equals the low-utilizer count of the other, and
  both are the number of employees with fewer than 90 swipes in the nine months. On a
  table without rows neither analysis returns a count.
\<close>

theorem remote_equals_low_utilizers:
  assumes "badge \<noteq> []"
  shows "\<exists>A R. advanced_metrics_analysis badge conference = Inr A
     \<and> analyze_occupancy_patterns info badge = Inr R
     \<and> remote_employees (ad_returned A) = low_utilizers (returned R)
     \<and> low_utilizers (returned R) = length (filter (\<lambda>t. t < 90) (total_swipes badge))"
proof -
  have low: "low_utilizers (returned (occupancy_report_of info badge))
      = length (filter (\<lambda>t. t < 90) (total_swipes badge))"
    by (simp add: occupancy_report_of_def Let_def very_low_util_def low_util_def
        count_true_map count_split_30_90)
  have remote: "full_remote (total_swipes badge) + mostly_remote (total_swipes badge)
      = length (filter (\<lambda>t. t < 90) (total_swipes badge))"
    by (simp add: full_remote_def mostly_remote_def count_true_map count_split_20_90)
  obtain p w where adv: "advanced_metrics_analysis badge conference =
      Inr (advanced_report_of badge (filter is_2025 conference) p w)"
    using advanced_returns [OF assms] by blast
  have "remote_employees (ad_returned (advanced_report_of badge (filter is_2025 conference) p w))
      = length (filter (\<lambda>t. t < 90) (total_swipes badge))"
    using remote by (simp add: advanced_report_of_def Let_def)
  moreover have "analyze_occupancy_patterns info badge = Inr (occupancy_report_of info badge)"
    using assms by (simp add: analyze_occupancy_patterns_def)
  ultimately show ?thesis
    using adv low by simp
qed


theorem remote_equals_low_utilizers_witness:
  "small_badge \<noteq> []
   \<and> map_sum id (remote_employees \<circ> ad_returned) (advanced_metrics_analysis small_badge []) = Inr 1
   \<and> map_sum id (low_utilizers \<circ> returned)
       (analyze_occupancy_patterns building37_info small_badge) = Inr 1"
proof -
  have ne: "small_badge \<noteq> []"
    by (simp add: small_badge_def)
  have totals: "total_swipes small_badge = [18, 90]"
    by (simp add: total_swipes_def small_badge_def row_total_def months_def wrap64_def)
  from remote_equals_low_utilizers [OF ne, of "[]" building37_info]
  obtain A R where "advanced_metrics_analysis small_badge [] = Inr A"
    and "analyze_occupancy_patterns building37_info small_badge = Inr R"
    and "remote_employees (ad_returned A) = low_utilizers (returned R)"
    and "low_utilizers (returned R) = length (filter (\<lambda>t. t < 90) (total_swipes small_badge))"
    by blast
  then show ?thesis
    using ne by (simp add: totals)
qed

section \<open>The end-to-end occupancy scenario\<close>

lemma replicate_9: "replicate 9 x = [x, x, x, x, x, x, x, x, x]"
  by (simp add: numeral_eq_Suc)

text \<open>
  Claim C4, as amended. With 100 employees, every monthly swipe total equal to 1000
  and 20 working days, every row of the monthly table has 10 average days per
  employee and an attendance rate of 50 percent.
\<close>

theorem occupancy_scenario:
  assumes "length badge = 100" and "\<forall>m. monthly_swipes badge m = 1000"
    and "working_days_per_month info = 20"
  shows "\<exists>R. analyze_occupancy_patterns info badge = Inr R
     \<and> map mr_avg_days (monthly_table R) = replicate 9 (Fin 10)
     \<and> map mr_rate (monthly_table R) = replicate 9 (Fin 50)"
proof -
  have "badge \<noteq> []"
    using assms(1) by auto
  then have "analyze_occupancy_patterns info badge = Inr (occupancy_report_of info badge)"
    by (simp add: analyze_occupancy_patterns_def)
  moreover have "map mr_avg_days (monthly_table (occupancy_report_of info badge)) = replicate 9 (Fin 10)"
    and "map mr_rate (monthly_table (occupancy_report_of info badge)) = replicate 9 (Fin 50)"
    using assms
    by (simp_all add: occupancy_report_of_def months_def month_metrics_def np_of_int_def
        np_of_nat_def Let_def replicate_9)
  ultimately show ?thesis by simp
qed

lemma scenario_monthly: "monthly_swipes scenario_badge m = 1000"
  by (simp add: scenario_badge_def monthly_swipes_def sum_list_replicate wrap64_def)

theorem occupancy_scenario_witness:
  "length scenario_badge = 100
   \<and> (\<forall>m. monthly_swipes scenario_badge m = 1000)
   \<and> working_days_per_month building37_info = 20
   \<and> map_sum id (map mr_avg_days \<circ> monthly_table)
       (analyze_occupancy_patterns building37_info scenario_badge) = Inr (replicate 9 (Fin 10))
   \<and> map_sum id (map mr_rate \<circ> monthly_table)
       (analyze_occupancy_patterns building37_info scenario_badge) = Inr (replicate 9 (Fin 50))"
proof -
  have h1: "length scenario_badge = 100"
    by (simp add: scenario_badge_def)
  have h2: "\<forall>m. monthly_swipes scenario_badge m = 1000"
    by (simp add: scenario_monthly)
  have h3: "working_days_per_month building37_info = 20"
    by (simp add: building37_info_def)
  from occupancy_scenario [OF h1 h2 h3] obtain R where
    "analyze_occupancy_patterns building37_info scenario_badge = Inr R"
    "map mr_avg_days (monthly_table R) = replicate 9 (Fin 10)"
    "map mr_rate (monthly_table R) = replicate 9 (Fin 50)"
    by blast
  with h1 h2 h3 show ?thesis
    by simp
qed

text \<open>The values the claim names, 0.5 days and 2.5 percent, are not what the analysis
  computes on that input.\<close>

theorem occupancy_scenario_counterexample:
  "length scenario_badge = 100
   \<and> map (monthly_swipes scenario_badge) months = replicate 9 1000
   \<and> working_days_per_month building37_info = 20
   \<and> analyze_occupancy_patterns building37_info scenario_badge
       = Inr (occupancy_report_of building37_info scenario_badge)
   \<and> map mr_avg_days (monthly_table (occupancy_report_of building37_info scenario_badge))
       \<noteq> replicate 9 (Fin 0.5)
   \<and> map mr_rate (monthly_table (occupancy_report_of building37_info scenario_badge))
       \<noteq> replicate 9 (Fin 2.5)"
proof -
  have "scenario_badge \<noteq> []"
    by (simp add: scenario_badge_def)
  then have "analyze_occupancy_patterns building37_info scenario_badge
       = Inr (occupancy_report_of building37_info scenario_badge)"
    by (simp add: analyze_occupancy_patterns_def)
  moreover have "length scenario_badge = 100"
    by (simp add: scenario_badge_def)
  ultimately show ?thesis
    by (simp add: occupancy_report_of_def building37_info_def months_def month_metrics_def
        scenario_monthly np_of_int_def np_of_nat_def Let_def replicate_9)
qed

section \<open>When the occupancy analysis is well defined\<close>

lemma is_finite_div_Fin [simp]: "is_finite (np_div x (Fin c)) \<longleftrightarrow> is_finite x \<and> c \<noteq> 0"
  by (cases x) auto

lemma is_finite_mul_Fin [simp]: "is_finite (np_mul x (Fin c)) \<longleftrightarrow> is_finite x"
  by (cases x) auto

















section \<open>The loaded tables are never mutated\<close>

lemma select_2025_copy_eq:
  "select_2025_copy h conference =
     (Suc (length h),
      h @ [BookingFrame (filter is_2025 conference), BookingFrame (filter is_2025 conference)])"
  by (simp add: select_2025_copy_def alloc_def copy_frame_def lookup_def nth_append)

lemma modify_rows_last:
  "modify_rows (h @ [f, BookingFrame rows]) (Suc (length h)) step
     = h @ [f, BookingFrame (map step rows)]"
  by (simp add: modify_rows_def lookup_def nth_append list_update_append)

lemma foldl_modify_rows:
  "foldl (\<lambda>s step. modify_rows s (Suc (length h)) step) (h @ [f, BookingFrame rows]) steps
     = h @ [f, BookingFrame (apply_steps steps rows)]"
proof (induction steps arbitrary: rows)
  case Nil
  then show ?case by (simp add: apply_steps_def)
next
  case (Cons step steps)
  then show ?case
    by (simp add: modify_rows_last apply_steps_Cons)
qed

lemma rows_at_last: "rows_at (h @ [f, BookingFrame rows]) (Suc (length h)) = rows"
  by (simp add: rows_at_def lookup_def nth_append)

text \<open>The method on the state computes what the function on the table computes, and
  leaves the selection and the worked-on copy behind in the store.\<close>

lemma self_conference_eq:
  assumes "read_bookings st = Inr conference"
  shows "self_analyze_conference_room_utilization td st =
     (Conference (analyze_conference_room_utilization td conference),
      st\<lparr> heap := heap st @ [BookingFrame (filter is_2025 conference),
                              BookingFrame (derive_hours td conference)] \<rparr>)"
  using assms
  by (simp add: self_analyze_conference_room_utilization_def select_2025_copy_eq
      foldl_modify_rows rows_at_last analyze_conference_room_utilization_def derive_hours_def)

lemma self_advanced_eq:
  assumes "read_badge st = Inr badge" and "read_bookings st = Inr conference"
    and "badge \<noteq> []"
  shows "\<exists>r. advanced_metrics_analysis badge conference = Inr r \<and>
     self_advanced_metrics_analysis st =
       (Advanced r,
        st\<lparr> heap := heap st @ [BookingFrame (filter is_2025 conference),
                                BookingFrame (filter is_2025 conference)] \<rparr>)"
proof -
  obtain p w where "peak_analysis badge = Inr p"
    and "min_by_score (efficiency_scores badge) = Inr w"
    and "advanced_metrics_analysis badge conference =
         Inr (advanced_report_of badge (filter is_2025 conference) p w)"
    using advanced_returns [OF assms(3)] by blast
  then show ?thesis
    using assms(1,2)
    by (simp add: self_advanced_metrics_analysis_def select_2025_copy_eq
        rows_at_def lookup_def nth_append)
qed

lemma run_analysis_extends:
  "\<exists>ext. snd (run_analysis td op st) = st\<lparr> heap := heap st @ ext \<rparr>"
proof (cases op)
  case AnalyzeOccupancy
  then show ?thesis
    by (intro exI [of _ "[]"])
      (simp add: self_analyze_occupancy_patterns_def split: sum.splits)
next
  case AnalyzeEnergy
  then show ?thesis
    by (intro exI [of _ "[]"]) (simp add: self_analyze_energy_consumption_def)
next
  case Correlate
  then show ?thesis
    by (intro exI [of _ "[]"])
      (simp add: self_correlate_occupancy_with_energy_def split: sum.splits)
next
  case AnalyzeConference
  show ?thesis
  proof (cases "read_bookings st")
    case (Inl e)
    with AnalyzeConference show ?thesis
      by (intro exI [of _ "[]"]) (simp add: self_analyze_conference_room_utilization_def)
  next
    case (Inr conference)
    with AnalyzeConference show ?thesis
      by (intro exI [of _ "[BookingFrame (filter is_2025 conference),
            BookingFrame (derive_hours td conference)]"])
        (simp add: self_conference_eq)
  qed
next
  case AdvancedMetrics
  then show ?thesis
    by (auto simp: self_advanced_metrics_analysis_def select_2025_copy_eq
        split: sum.splits intro: exI [of _ "[]"])
next
  case SummaryReport
  then show ?thesis
    by (intro exI [of _ "[]"]) (simp add: self_generate_summary_report_def)
qed

lemma lookup_append: "a < length h \<Longrightarrow> lookup (h @ ext) a = lookup h a"
  by (simp add: lookup_def nth_append)

lemma extends_frame:
  assumes "refs_valid st"
  shows "refs_valid (st\<lparr> heap := heap st @ ext \<rparr>)
       \<and> stored_tables (st\<lparr> heap := heap st @ ext \<rparr>) = stored_tables st
       \<and> self (st\<lparr> heap := heap st @ ext \<rparr>) = self st"
  using assms
  by (auto simp: refs_valid_def stored_tables_def lookup_append split: option.splits)

lemma run_analysis_frame:
  assumes "refs_valid st"
  shows "refs_valid (snd (run_analysis td op st))
       \<and> stored_tables (snd (run_analysis td op st)) = stored_tables st
       \<and> self (snd (run_analysis td op st)) = self st"
proof -
  obtain ext where "snd (run_analysis td op st) = st\<lparr> heap := heap st @ ext \<rparr>"
    using run_analysis_extends by blast
  then show ?thesis
    using extends_frame [OF assms, of ext] by simp
qed

lemma run_all_frame:
  assumes "refs_valid st"
  shows "refs_valid (run_all td ops st)
       \<and> stored_tables (run_all td ops st) = stored_tables st
       \<and> self (run_all td ops st) = self st"
  using assms
proof (induction ops arbitrary: st)
  case Nil
  then show ?case by (simp add: run_all_def)
next
  case (Cons op ops)
  from run_analysis_frame [OF Cons.prems, of td op]
  have step: "refs_valid (snd (run_analysis td op st))"
    "stored_tables (snd (run_analysis td op st)) = stored_tables st"
    "self (snd (run_analysis td op st)) = self st"
    by simp_all
  have "run_all td (op # ops) st = run_all td ops (snd (run_analysis td op st))"
    by (simp add: run_all_def)
  with Cons.IH [OF step(1)] step show ?case by simp
qed

lemma load_data_valid:
  "refs_valid (load_data badge energy conference st)
   \<and> stored_tables (load_data badge energy conference st) =
       (Some (BadgeFrame badge), Some (EnergyFrame energy),
        Some (BookingFrame (filter (\<lambda>b. Date b \<noteq> None) conference)))"
  by (simp add: load_data_def alloc_def refs_valid_def stored_tables_def lookup_def nth_append)

lemma loaded_state_eq:
  "loaded_state =
     \<lparr> heap = [BadgeFrame small_badge, EnergyFrame [],
                BookingFrame [all_day_booking, morning_booking]],
       self = \<lparr> badge_data = Some 0, energy_data = Some 1, conference_data = Some 2,
                building_info = building37_info \<rparr> \<rparr>"
  by (simp add: loaded_state_def load_data_def alloc_def Building37Analyzer_def
      all_day_booking_def morning_booking_def)

text \<open>
  Claim C7. After loading, whatever analyses run and in whatever order, the analyzer
  still refers to the same three tables and their contents are the loaded ones: the
  conference analyses write the parsed times and the duration into a copy.
\<close>

theorem tables_never_mutated:
  "stored_tables (run_all td ops (load_data badge energy conference st)) =
     (Some (BadgeFrame badge), Some (EnergyFrame energy),
      Some (BookingFrame (filter (\<lambda>b. Date b \<noteq> None) conference)))
   \<and> self (run_all td ops (load_data badge energy conference st)) =
       self (load_data badge energy conference st)
   \<and> stored_tables (snd (run_analysis td op (load_data badge energy conference st))) =
       stored_tables (load_data badge energy conference st)"
  using run_all_frame [of "load_data badge energy conference st" td ops]
    run_analysis_frame [of "load_data badge energy conference st" td op]
    load_data_valid [of badge energy conference st]
  by simp

text \<open>The conference analysis on a loaded state: the stored booking table still has no
  duration column, the copy at the end of the store has the clamped durations.\<close>

theorem tables_never_mutated_witness:
  "stored_tables (snd (run_analysis midnight_parser AnalyzeConference loaded_state)) =
     (Some (BadgeFrame small_badge), Some (EnergyFrame []),
      Some (BookingFrame [all_day_booking, morning_booking]))
   \<and> map Hours (rows_at (heap (snd (run_analysis midnight_parser AnalyzeConference loaded_state))) 4)
       = [Some (Fin 15), Some (Fin 14.5)]
   \<and> map Hours (rows_at (heap (snd (run_analysis midnight_parser AnalyzeConference loaded_state))) 2)
       = [None, None]"
proof -
  have rb: "read_bookings loaded_state = Inr [all_day_booking, morning_booking]"
    by (simp add: loaded_state_eq read_bookings_def lookup_def)
  have dh: "map Hours (derive_hours midnight_parser [all_day_booking, morning_booking])
      = [Some (Fin 15), Some (Fin 14.5)]"
    by (simp add: derive_hours_def apply_steps_map hours_steps_def is_2025_def dt_year_def
      all_day_booking_def morning_booking_def
      set_Start_def set_Finish_def set_Hours_def loc_set_hours_def midnight_parser_def)
  have raw: "map Hours [all_day_booking, morning_booking] = [None, None]"
    by (simp add: all_day_booking_def morning_booking_def)
  have st: "heap (snd (run_analysis midnight_parser AnalyzeConference loaded_state)) =
      heap loaded_state @ [BookingFrame (filter is_2025 [all_day_booking, morning_booking]),
        BookingFrame (derive_hours midnight_parser [all_day_booking, morning_booking])]"
    by (simp add: self_conference_eq [OF rb])
  have "stored_tables (snd (run_analysis midnight_parser AnalyzeConference loaded_state)) =
      stored_tables loaded_state"
    unfolding loaded_state_def
    using tables_never_mutated [of midnight_parser "[]" small_badge "[]"
      "[all_day_booking, morning_booking]" "\<lparr> heap = [], self = Building37Analyzer \<rparr>"
      AnalyzeConference]
    by blast
  moreover have "stored_tables loaded_state =
     (Some (BadgeFrame small_badge), Some (EnergyFrame []),
      Some (BookingFrame [all_day_booking, morning_booking]))"
    by (simp add: loaded_state_eq stored_tables_def lookup_def)
  moreover have "map Hours (rows_at (heap (snd (run_analysis midnight_parser AnalyzeConference loaded_state))) 4)
       = [Some (Fin 15), Some (Fin 14.5)]"
    unfolding st by (simp add: loaded_state_eq rows_at_def lookup_def dh)
  moreover have "map Hours (rows_at (heap (snd (run_analysis midnight_parser AnalyzeConference loaded_state))) 2)
       = [None, None]"
    unfolding st using raw by (simp add: loaded_state_eq rows_at_def lookup_def)
  ultimately show ?thesis by simp
qed

section \<open>Zero-count groups in the room cost-benefit section\<close>

text \<open>A room category without bookings emits nothing, and the ghost percentage of an
  emitted category is always finite: the guard \<open>len(room_data) > 0\<close> covers the
  division by the category's booking count.\<close>

lemma room_cost_benefit_skip:
  "filter (\<lambda>b. Room b \<in> set (snd cat)) df_2025 = [] \<Longrightarrow> room_cost_benefit df_2025 cat = []"
  by (simp add: room_cost_benefit_def)

lemma room_cost_benefit_ghost_pct_finite:
  "list_all (\<lambda>r. is_finite (cb_ghost_pct r)) (room_cost_benefit df_2025 cat)"
  by (simp add: room_cost_benefit_def Let_def np_of_nat_def)

text \<open>
  Claim C5. The skip-on-zero-count policy would also have to cover the average over
  the bookings with attendees. It does not: for a category whose bookings all have
  zero attendees the guard passes, the mean runs over no rows, and the category is
  emitted with an average attendance of NaN. Here the only 2025 booking is an
  auditorium booking with no attendees.
\<close>

theorem all_ghost_category_emits_nan:
  "map_sum id ad_cost_benefit (advanced_metrics_analysis small_badge [all_day_booking]) =
     Inr [\<lparr> cb_room_type = ''Large (200+ cap)'', cb_bookings = 1,
        cb_avg_attendees = NaN, cb_ghost_pct = Fin 100 \<rparr>]"
proof -
  have "small_badge \<noteq> []"
    by (simp add: small_badge_def)
  then obtain p w where "advanced_metrics_analysis small_badge [all_day_booking] =
      Inr (advanced_report_of small_badge (filter is_2025 [all_day_booking]) p w)"
    using advanced_returns by blast
  then show ?thesis
    by (simp add: advanced_report_of_def Let_def
      conference_cost_benefit_def room_cost_benefit_def all_day_booking_def
      is_2025_def dt_year_def large_rooms_def medium_rooms_def List.map_filter_def
      np_mean_def np_of_nat_def count_true_def ghost_def)
qed

section \<open>The correlation coefficient\<close>

lemma dot_self: "dot xs xs = sum_list (map (\<lambda>x. x * x) xs)"
  by (simp add: dot_def zip_same_conv_map comp_def)

lemma dot_self_nonneg: "0 \<le> dot xs xs"
  unfolding dot_self by (intro sum_list_nonneg) auto

lemma dot_self_zero: "dot xs xs = 0 \<longleftrightarrow> (\<forall>x\<in>set xs. x = 0)"
proof -
  have "dot xs xs = 0 \<longleftrightarrow> (\<forall>v\<in>set (map (\<lambda>x. x * x) xs). v = 0)"
    unfolding dot_self by (intro sum_list_nonneg_eq_0_iff) auto
  then show ?thesis by auto
qed

lemma sum_list_const:
  "\<forall>x\<in>set xs. x = c \<Longrightarrow> sum_list xs = real (length xs) * (c::real)"
  by (induction xs) (simp_all add: algebra_simps)

lemma zero_variance_iff: "dot (centered xs) (centered xs) = 0 \<longleftrightarrow> constant_input xs"
proof (cases xs)
  case Nil
  then show ?thesis
    by (simp add: dot_def centered_def constant_input_def)
next
  case (Cons a as)
  show ?thesis
  proof
    assume "dot (centered xs) (centered xs) = 0"
    then have "\<forall>x\<in>set xs. x = mean_of xs"
      by (auto simp: dot_self_zero centered_def)
    then show "constant_input xs"
      using Cons by (auto simp: constant_input_def list_all_iff)
  next
    assume "constant_input xs"
    then have all: "\<forall>x\<in>set xs. x = a"
      using Cons by (auto simp: constant_input_def list_all_iff)
    then have "sum_list xs = real (length xs) * a"
      by (rule sum_list_const)
    then have "mean_of xs = a"
      using Cons by (simp add: mean_of_def)
    with all show "dot (centered xs) (centered xs) = 0"
      by (simp add: dot_self_zero centered_def)
  qed
qed

lemma quadratic_sum:
  "sum_list (map (\<lambda>(a, b). (a * t + b) * (a * t + b)) ps)
     = sum_list (map (\<lambda>(a, b). a * a) ps) * (t * t)
       + 2 * sum_list (map (\<lambda>(a, b). a * b) ps) * t
       + sum_list (map (\<lambda>(a, b). b * b) ps)"
  for t :: real
  by (induction ps) (auto simp: algebra_simps)

lemma cauchy_schwarz_pairs:
  fixes ps :: "(real \<times> real) list"
  assumes "0 < sum_list (map (\<lambda>(a, b). a * a) ps)"
  shows "(sum_list (map (\<lambda>(a, b). a * b) ps))\<^sup>2
     \<le> sum_list (map (\<lambda>(a, b). a * a) ps) * sum_list (map (\<lambda>(a, b). b * b) ps)"
proof -
  define A where "A = sum_list (map (\<lambda>(a, b). a * a) ps)"
  define B where "B = sum_list (map (\<lambda>(a, b). a * b) ps)"
  define C where "C = sum_list (map (\<lambda>(a, b). b * b) ps)"
  define t where "t = - B / A"
  have "0 \<le> sum_list (map (\<lambda>(a, b). (a * t + b) * (a * t + b)) ps)"
    by (intro sum_list_nonneg) auto
  then have "0 \<le> A * (t * t) + 2 * B * t + C"
    by (simp add: quadratic_sum A_def B_def C_def)
  moreover have "0 < A"
    using assms by (simp add: A_def)
  moreover have "A * (t * t) + 2 * B * t + C = C - B * B / A"
    using \<open>0 < A\<close> by (simp add: t_def field_simps)
  ultimately have "B * B / A \<le> C"
    by simp
  then have "B * B \<le> A * C"
    using \<open>0 < A\<close> by (simp add: field_simps)
  then show ?thesis
    by (simp add: power2_eq_square A_def B_def C_def)
qed

lemma cauchy_schwarz_dot:
  assumes "length xs = length ys" and "dot xs xs \<noteq> 0"
  shows "(dot xs ys)\<^sup>2 \<le> dot xs xs * dot ys ys"
proof -
  have fst: "sum_list (map (\<lambda>(a, b). a * a) (zip xs ys)) = dot xs xs"
    using assms(1) by (induction xs ys rule: list_induct2) (simp_all add: dot_def)
  have snd: "sum_list (map (\<lambda>(a, b). b * b) (zip xs ys)) = dot ys ys"
    using assms(1) by (induction xs ys rule: list_induct2) (simp_all add: dot_def)
  have "0 < dot xs xs"
    using assms(2) dot_self_nonneg [of xs] by simp
  then show ?thesis
    using cauchy_schwarz_pairs [of "zip xs ys"] by (simp add: fst snd dot_def)
qed

lemma coefficient_bounded:
  assumes "length xs = length ys" and "dot xs xs \<noteq> 0" and "dot ys ys \<noteq> 0"
  shows "- 1 \<le> dot xs ys / (sqrt (dot xs xs) * sqrt (dot ys ys))
       \<and> dot xs ys / (sqrt (dot xs xs) * sqrt (dot ys ys)) \<le> 1"
proof -
  define D where "D = sqrt (dot xs xs) * sqrt (dot ys ys)"
  have pos: "0 < dot xs xs" "0 < dot ys ys"
    using assms(2,3) dot_self_nonneg [of xs] dot_self_nonneg [of ys] by simp_all
  have "\<bar>dot xs ys\<bar> = sqrt ((dot xs ys)\<^sup>2)"
    by simp
  also have "\<dots> \<le> sqrt (dot xs xs * dot ys ys)"
    using cauchy_schwarz_dot [OF assms(1,2)] by (simp only: real_sqrt_le_iff)
  also have "\<dots> = D"
    unfolding D_def by (rule real_sqrt_mult)
  finally have le: "\<bar>dot xs ys\<bar> \<le> D" .
  have D: "0 < D"
    using pos by (simp add: D_def)
  from le have "- D \<le> dot xs ys" "dot xs ys \<le> D"
    by linarith+
  with D have "- 1 \<le> dot xs ys / D \<and> dot xs ys / D \<le> 1"
    by (simp add: pos_divide_le_eq pos_le_divide_eq)
  then show ?thesis
    by (simp add: D_def)
qed

lemma length_centered: "length (centered xs) = length xs"
  by (simp add: centered_def)

lemma pearsonr_constant:
  assumes "length x = length y" and "2 \<le> length x"
    and "constant_input x \<or> constant_input y"
  shows "pearsonr x y = Inr NaN"
proof -
  from assms(3) have "dot (centered x) (centered x) = 0 \<or> dot (centered y) (centered y) = 0"
    by (simp add: zero_variance_iff)
  then show ?thesis
    using assms(1,2) by (auto simp: pearsonr_def Let_def)
qed

lemma pearsonr_nonconstant:
  assumes "length x = length y" and "2 \<le> length x"
    and "\<not> constant_input x" and "\<not> constant_input y"
  shows "\<exists>r. pearsonr x y = Inr (Fin r) \<and> - 1 \<le> r \<and> r \<le> 1"
proof -
  have nz: "dot (centered x) (centered x) \<noteq> 0" "dot (centered y) (centered y) \<noteq> 0"
    using assms(3,4) by (simp_all add: zero_variance_iff)
  have "length (centered x) = length (centered y)"
    using assms(1) by (simp add: length_centered)
  from coefficient_bounded [OF this nz] show ?thesis
    using assms(1,2) nz by (simp add: pearsonr_def Let_def)
qed

text \<open>The coefficient of the spec's own example, a perfect linear relation.\<close>

lemma pearsonr_example: "pearsonr [10, 20] [10, 20] = Inr (Fin 1)"
  by (simp add: pearsonr_def Let_def centered_def mean_of_def dot_def)

lemma correlate_coefficients:
  "\<exists>r. correlate_occupancy_with_energy badge = Inr r
     \<and> list_all (\<lambda>c.
          if constant_input (map (\<lambda>m. real_of_int (monthly_swipes badge m)) months)
          then c = NaN else (\<exists>v. c = Fin v \<and> - 1 \<le> v \<and> v \<le> 1))
         [corr_electricity r, corr_gas r, corr_water r]"
proof -
  define swipes where "swipes = map (\<lambda>m. real_of_int (monthly_swipes badge m)) months"
  have len: "length swipes = length electricity" "length swipes = length gas"
    "length swipes = length water"
    by (simp_all add: swipes_def months_def electricity_def gas_def water_def)
  have two: "2 \<le> length swipes"
    by (simp add: swipes_def months_def)
  have nc: "\<not> constant_input electricity" "\<not> constant_input gas" "\<not> constant_input water"
    by (simp_all add: constant_input_def electricity_def gas_def water_def)
  show ?thesis
  proof (cases "constant_input swipes")
    case True
    then have "pearsonr swipes electricity = Inr NaN" "pearsonr swipes gas = Inr NaN"
      "pearsonr swipes water = Inr NaN"
      using len two by (simp_all add: pearsonr_constant)
    with True show ?thesis
      by (simp add: correlate_occupancy_with_energy_def swipes_def [symmetric])
  next
    case False
    from pearsonr_nonconstant [OF len(1) two False nc(1)]
    obtain ve where ve: "pearsonr swipes electricity = Inr (Fin ve)" "- 1 \<le> ve" "ve \<le> 1"
      by blast
    from pearsonr_nonconstant [OF len(2) two False nc(2)]
    obtain vg where vg: "pearsonr swipes gas = Inr (Fin vg)" "- 1 \<le> vg" "vg \<le> 1"
      by blast
    from pearsonr_nonconstant [OF len(3) two False nc(3)]
    obtain vw where vw: "pearsonr swipes water = Inr (Fin vw)" "- 1 \<le> vw" "vw \<le> 1"
      by blast
    from False ve vg vw show ?thesis
      by (simp add: correlate_occupancy_with_energy_def swipes_def [symmetric])
  qed
qed

text \<open>
  Claim C3. \<open>correlate_occupancy_with_energy\<close> correlates the nine monthly swipe
  totals with each of the three resource series of the script, none of which is
  constant. For every badge table with rows (every series of nine integer totals is
  the series of such a table) the call returns, and each of the three coefficients is
  NaN, neither an error nor zero, when the monthly totals are all equal, and a finite
  number in \<open>[-1, 1]\<close> otherwise.
\<close>

theorem correlate_bounded_or_nan:
  assumes "badge \<noteq> []"
  shows "\<exists>r. correlate_occupancy_with_energy badge = Inr r
     \<and> (constant_input (map (\<lambda>m. real_of_int (monthly_swipes badge m)) months) \<longrightarrow>
          corr_electricity r = NaN \<and> corr_gas r = NaN \<and> corr_water r = NaN)
     \<and> (\<not> constant_input (map (\<lambda>m. real_of_int (monthly_swipes badge m)) months) \<longrightarrow>
          (\<exists>ve vg vw. corr_electricity r = Fin ve \<and> corr_gas r = Fin vg \<and> corr_water r = Fin vw
             \<and> - 1 \<le> ve \<and> ve \<le> 1 \<and> - 1 \<le> vg \<and> vg \<le> 1 \<and> - 1 \<le> vw \<and> vw \<le> 1))"
  using correlate_coefficients [of badge]
  by auto

theorem correlate_bounded_or_nan_witness:
  "small_badge \<noteq> []
   \<and> map (monthly_swipes small_badge) months = replicate 9 12
   \<and> map_sum id corr_electricity (correlate_occupancy_with_energy small_badge) = Inr NaN
   \<and> map_sum id corr_gas (correlate_occupancy_with_energy small_badge) = Inr NaN
   \<and> map_sum id corr_water (correlate_occupancy_with_energy small_badge) = Inr NaN"
proof -
  have ne: "small_badge \<noteq> []"
    by (simp add: small_badge_def)
  have sw: "map (monthly_swipes small_badge) months = replicate 9 12"
    by (simp add: monthly_swipes_def small_badge_def months_def wrap64_def replicate_9)
  then have "map (\<lambda>m. real_of_int (monthly_swipes small_badge m)) months = replicate 9 12"
    by (simp add: months_def replicate_9)
  then have "constant_input (map (\<lambda>m. real_of_int (monthly_swipes small_badge m)) months)"
    by (simp add: constant_input_def replicate_9)
  with correlate_bounded_or_nan [OF ne] obtain r where
    "correlate_occupancy_with_energy small_badge = Inr r"
    "corr_electricity r = NaN" "corr_gas r = NaN" "corr_water r = NaN"
    by blast
  with ne sw show ?thesis
    by simp
qed

end
